theory Spec2Isabelle
  imports Main "HOL-Library.Multiset"
begin

section \<open>Go values used by the batch client\<close>

text \<open>
  A Go slice is either \<^verbatim>\<open>nil\<close> or a sequence of elements; both \<^verbatim>\<open>nil\<close> and the empty
  sequence have length 0. A pointer is either \<^verbatim>\<open>nil\<close> or points to a value.
\<close>

type_synonym 'a slice = "'a list option"

type_synonym 'a ptr = "'a option"

definition len_slice :: "'a slice \<Rightarrow> nat" where
  "len_slice s = (case s of None \<Rightarrow> 0 | Some xs \<Rightarrow> length xs)"

text \<open>Indexing a slice; \<open>None\<close> is the run-time panic of an index out of range.\<close>

definition slice_at :: "'a slice \<Rightarrow> nat \<Rightarrow> 'a option" where
  "slice_at s i = (case s of None \<Rightarrow> None
     | Some xs \<Rightarrow> (if i < length xs then Some (xs ! i) else None))"

text \<open>\<^verbatim>\<open>strings.SplitN(s, "?", 2)[0]\<close>: the part of \<open>s\<close> before the first question mark.\<close>

definition before_query :: "string \<Rightarrow> string" where
  "before_query s = takeWhile (\<lambda>c. c \<noteq> CHR ''?'') s"

text \<open>
  Errors are values. \<open>External\<close> is an error produced by a collaborator (request
  construction, transport, JSON decoding); \<open>Wrap\<close> is \<^verbatim>\<open>errors.Wrap(err, msg)\<close> on a
  non-nil error; \<open>Errorf\<close> is \<^verbatim>\<open>errors.Errorf(format, args...)\<close>.
\<close>

datatype fmtarg = ArgS string | ArgD int | ArgE error
  and error = External string | Wrap error string | Errorf string "fmtarg list"

datatype json = JNull | JString string | JNumber int | JArray "json list"
  | JObject "(string \<times> json) list"

text \<open>The fields of \<^verbatim>\<open>http.Request\<close> and \<^verbatim>\<open>http.Response\<close> that \<^verbatim>\<open>Batch\<close> reads.\<close>

record http_Request =
  Method :: string
  URL :: string

record http_Response =
  StatusCode :: int
  Body :: string

section \<open>Wire types of \<^verbatim>\<open>tq/api.go\<close>\<close>

text \<open>
  \<^verbatim>\<open>api.ObjectResource\<close> is declared in another package; it is the type parameter
  \<open>'obj\<close>. Both object lists hold pointers.
\<close>

record 'obj batchRequest =
  Operation :: string
  Objects :: "'obj ptr slice"
  TransferAdapterNames :: "string slice"

record 'obj batchResponse =
  TransferAdapterName :: string
  ResObjects :: "'obj ptr slice"

text \<open>
  The JSON encoding of a \<^verbatim>\<open>batchRequest\<close>, as its struct tags prescribe:
  \<^verbatim>\<open>operation\<close> and \<^verbatim>\<open>objects\<close> are always present (a nil slice is \<^verbatim>\<open>null\<close>, a nil
  pointer is \<^verbatim>\<open>null\<close>); \<^verbatim>\<open>transfers\<close> carries \<^verbatim>\<open>omitempty\<close>, so it is left out when
  the slice has length 0. The encoding of one object is the parameter \<open>enc\<close>.
\<close>

definition marshal_ptr :: "('obj \<Rightarrow> json) \<Rightarrow> 'obj ptr \<Rightarrow> json" where
  "marshal_ptr enc p = (case p of None \<Rightarrow> JNull | Some x \<Rightarrow> enc x)"

definition marshal_batchRequest :: "('obj \<Rightarrow> json) \<Rightarrow> 'obj batchRequest \<Rightarrow> json" where
  "marshal_batchRequest enc r = JObject
     ([(''operation'', JString (Operation r)),
       (''objects'', (case Objects r of None \<Rightarrow> JNull
                      | Some os \<Rightarrow> JArray (map (marshal_ptr enc) os)))]
      @ (if len_slice (TransferAdapterNames r) = 0 then []
         else [(''transfers'', (case TransferAdapterNames r of None \<Rightarrow> JNull
                                | Some ns \<Rightarrow> JArray (map JString ns)))]))"

definition json_fields :: "json \<Rightarrow> string list" where
  "json_fields j = (case j of JObject kvs \<Rightarrow> map fst kvs | _ \<Rightarrow> [])"

definition json_field :: "string \<Rightarrow> json \<Rightarrow> json option" where
  "json_field k j = (case j of JObject kvs \<Rightarrow> map_of kvs k | _ \<Rightarrow> None)"

section \<open>The client and its effects\<close>

text \<open>
  \<^verbatim>\<open>tqClient\<close> embeds \<^verbatim>\<open>*lfsapi.Client\<close>, whose code is in another package. What
  \<^verbatim>\<open>Batch\<close> calls there is a parameter: the endpoint lookup
  \<^verbatim>\<open>c.Endpoints.Endpoint(operation, remote)\<close>, the request constructor
  \<^verbatim>\<open>c.NewRequest(method, e, suffix, body)\<close>, the transport \<^verbatim>\<open>c.DoWithAuth(remote, req)\<close>
  and the decoder \<^verbatim>\<open>lfsapi.DecodeJSON(res, bRes)\<close>, which fills the response it is
  given and returns an error or nil. The endpoint type is the parameter \<open>'ep\<close>.
\<close>

record ('obj, 'ep) tqClient =
  Endpoint :: "string \<Rightarrow> string \<Rightarrow> 'ep"
  NewRequest :: "string \<Rightarrow> 'ep \<Rightarrow> string \<Rightarrow> 'obj batchRequest \<Rightarrow> error + http_Request"
  DoWithAuth :: "string \<Rightarrow> http_Request \<Rightarrow> error + http_Response"
  DecodeJSON :: "http_Response \<Rightarrow> 'obj batchResponse \<Rightarrow> 'obj batchResponse \<times> error option"

text \<open>
  Every call that leaves \<^verbatim>\<open>Batch\<close> is recorded, in order. \<open>EvDoWithAuth\<close> is the call
  that sends a request to the remote.
\<close>

datatype ('obj, 'ep) event =
    EvNewRequest string 'ep string "'obj batchRequest"
  | EvTrace string "fmtarg list"
  | EvDoWithAuth string http_Request
  | EvLogResponse string http_Response
  | EvDecodeJSON http_Response

type_synonym 'obj batch_result =
  "'obj batchResponse ptr \<times> http_Response ptr \<times> error option"

section \<open>\<^verbatim>\<open>Batch\<close>\<close>

text \<open>
  \<^verbatim>\<open>Batch\<close> receives a pointer to the request and assigns to one of its fields, so the
  model takes the request and returns it as the caller finds it afterwards, next to
  the three results and the extended record of calls. A nil request pointer, on which
  the first line panics, is outside the model.
\<close>

definition Batch :: "('obj, 'ep) tqClient \<Rightarrow> string \<Rightarrow> 'obj batchRequest \<Rightarrow>
    ('obj, 'ep) event list \<Rightarrow>
    'obj batch_result \<times> 'obj batchRequest \<times> ('obj, 'ep) event list" where
  "Batch c remote bReq tr =
    (let bRes = \<lparr>TransferAdapterName = [], ResObjects = None\<rparr> in
     if len_slice (Objects bReq) = 0 then ((Some bRes, None, None), bReq, tr)
     else
       let bReq1 = (if len_slice (TransferAdapterNames bReq) = 1
                       \<and> slice_at (TransferAdapterNames bReq) 0 = Some ''basic''
                    then bReq\<lparr>TransferAdapterNames := None\<rparr> else bReq);
           e = Endpoint c (Operation bReq1) remote;
           tr1 = tr @ [EvNewRequest ''POST'' e ''objects/batch'' bReq1]
       in (case NewRequest c ''POST'' e ''objects/batch'' bReq1 of
             Inl err \<Rightarrow> ((None, None, Some (Wrap err ''batch request'')), bReq1, tr1)
           | Inr req \<Rightarrow>
               let tr2 = tr1 @ [EvTrace ''api: batch %d files''
                                  [ArgD (int (len_slice (Objects bReq1)))],
                                EvDoWithAuth remote req]
               in (case DoWithAuth c remote req of
                     Inl err \<Rightarrow>
                       ((None, None, Some (Wrap err ''batch response'')), bReq1,
                        tr2 @ [EvTrace ''api error: %s'' [ArgE err]])
                   | Inr res \<Rightarrow>
                       let tr3 = tr2 @ [EvLogResponse ''lfs.batch'' res] in
                       if StatusCode res \<noteq> 200
                       then ((None, Some res,
                              Some (Errorf ''Invalid status for %s %s: %d''
                                      [ArgS (Method req), ArgS (before_query (URL req)),
                                       ArgD (StatusCode res)])),
                             bReq1, tr3)
                       else (case DecodeJSON c res bRes of
                               (bRes', derr) \<Rightarrow>
                                 ((Some bRes', Some res, derr), bReq1,
                                  tr3 @ [EvDecodeJSON res])))))"

text \<open>Reading the parts of what \<^verbatim>\<open>Batch\<close> returns.\<close>

definition batch_response :: "'obj batch_result \<times> 'r \<times> 't \<Rightarrow> 'obj batchResponse ptr" where
  "batch_response out = fst (fst out)"

definition batch_http :: "'obj batch_result \<times> 'r \<times> 't \<Rightarrow> http_Response ptr" where
  "batch_http out = fst (snd (fst out))"

definition batch_error :: "'obj batch_result \<times> 'r \<times> 't \<Rightarrow> error option" where
  "batch_error out = snd (snd (fst out))"

definition batch_request_after :: "'b \<times> 'r \<times> 't \<Rightarrow> 'r" where
  "batch_request_after out = fst (snd out)"

definition batch_events :: "'b \<times> 'r \<times> 't \<Rightarrow> 't" where
  "batch_events out = snd (snd out)"

section \<open>Reading the record of calls\<close>

text \<open>
  The request bodies handed to \<^verbatim>\<open>NewRequest\<close>, in order, and their JSON encodings: the
  bodies of the wire requests. \<open>is_network_call\<close> holds of the requests sent to the
  remote, \<open>is_decode_call\<close> of the calls of the decoder.
\<close>

fun new_request_body :: "('obj, 'ep) event \<Rightarrow> 'obj batchRequest option" where
  "new_request_body (EvNewRequest method e suffix body) = Some body"
| "new_request_body _ = None"

definition wire_bodies :: "('obj \<Rightarrow> json) \<Rightarrow> ('obj, 'ep) event list \<Rightarrow> json list" where
  "wire_bodies enc tr = map (marshal_batchRequest enc) (List.map_filter new_request_body tr)"

fun is_network_call :: "('obj, 'ep) event \<Rightarrow> bool" where
  "is_network_call (EvDoWithAuth remote req) = True"
| "is_network_call _ = False"

fun is_decode_call :: "('obj, 'ep) event \<Rightarrow> bool" where
  "is_decode_call (EvDecodeJSON res) = True"
| "is_decode_call _ = False"

definition status_2xx :: "int \<Rightarrow> bool" where
  "status_2xx s = (200 \<le> s \<and> s < 300)"

section \<open>Concrete clients and requests\<close>

text \<open>
  A client whose remote answers every batch request with the given status and whose
  decoder returns the given error; the endpoint of a remote is its name followed by
  the operation, objects are named by their identifier.
\<close>

definition reply_client :: "int \<Rightarrow> error option \<Rightarrow> (string, string) tqClient" where
  "reply_client status derr =
     \<lparr>Endpoint = (\<lambda>operation remote. remote @ ''/'' @ operation),
      NewRequest = (\<lambda>method e suffix body. Inr \<lparr>Method = method, URL = e @ ''/'' @ suffix\<rparr>),
      DoWithAuth = (\<lambda>remote req. Inr \<lparr>StatusCode = status, Body = []\<rparr>),
      DecodeJSON = (\<lambda>res bRes. (bRes\<lparr>TransferAdapterName := ''basic''\<rparr>, derr))\<rparr>"

text \<open>A client whose request construction fails, and one whose transport fails.\<close>

definition norequest_client :: "(string, string) tqClient" where
  "norequest_client = (reply_client 200 None)
     \<lparr>NewRequest := (\<lambda>method e suffix body. Inl (External ''bad endpoint''))\<rparr>"

definition offline_client :: "(string, string) tqClient" where
  "offline_client = (reply_client 200 None)
     \<lparr>DoWithAuth := (\<lambda>remote req. Inl (External ''connection refused''))\<rparr>"

definition download_request :: "string ptr slice \<Rightarrow> string slice \<Rightarrow> string batchRequest" where
  "download_request objs names =
     \<lparr>Operation = ''download'', Objects = objs, TransferAdapterNames = names\<rparr>"

definition enc_oid :: "string \<Rightarrow> json" where
  "enc_oid oid = JObject [(''oid'', JString oid)]"

section \<open>Version-control references\<close>

text \<open>
  Modelled from the spec: the version-control metadata collaborator (package \<^verbatim>\<open>git\<close>) is
  not among the sources, only its tests are. The types of reference the tests name, and
  tags, which are not branches.
\<close>

datatype RefType = RefTypeLocalBranch | RefTypeRemoteBranch | RefTypeLocalTag

text \<open>
  Modelled from the spec: a reference as \<^verbatim>\<open>CurrentReference\<close> returns it and the tests build
  it: its name, its type and the commit id at its tip.
\<close>

record Ref =
  Name :: string
  Type :: RefType
  Sha :: string

text \<open>
  Modelled from the spec: the repository as the tests build it. \<open>HEAD\<close> names the
  checked-out branch; a branch exists once it has a commit, so in a repository without
  commits \<open>HEAD\<close> names a branch that \<open>LocalBranches\<close> does not hold. Remote branches are
  kept with the name of their remote; every commit has a date.
\<close>

record Repository =
  HEAD :: string
  LocalBranches :: "(string \<times> string) list"
  RemoteBranches :: "(string \<times> string \<times> string) list"
  Tags :: "(string \<times> string) list"
  CommitDate :: "string \<Rightarrow> int"

text \<open>
  Modelled from the spec: \<^verbatim>\<open>CurrentReference() \<rightarrow> (name, type, commitId, error)\<close>, the
  checked-out branch as a local-branch reference with the commit at its tip; an error
  when the branch has no commit (\<^verbatim>\<open>TestResolveEmptyCurrentRef\<close>).
\<close>

definition CurrentRef :: "Repository \<Rightarrow> error + Ref" where
  "CurrentRef r = (case map_of (LocalBranches r) (HEAD r) of
       None \<Rightarrow> Inl (External ''failed to resolve HEAD'')
     | Some sha \<Rightarrow> Inr \<lparr>Name = HEAD r, Type = RefTypeLocalBranch, Sha = sha\<rparr>)"

text \<open>
  Modelled from the spec: the references of the local branches.
\<close>

definition local_refs :: "Repository \<Rightarrow> Ref list" where
  "local_refs r = map (\<lambda>(name, sha). \<lparr>Name = name, Type = RefTypeLocalBranch, Sha = sha\<rparr>)
                     (LocalBranches r)"

text \<open>
  Modelled from the spec: the references of the remote branches, named
  \<^verbatim>\<open>remote/branch\<close>: of every remote when \<open>remoteFilter\<close> is empty, of that remote
  otherwise.
\<close>

definition remote_refs :: "Repository \<Rightarrow> string \<Rightarrow> Ref list" where
  "remote_refs r remoteFilter =
     map (\<lambda>(remote, name, sha).
            \<lparr>Name = remote @ ''/'' @ name, Type = RefTypeRemoteBranch, Sha = sha\<rparr>)
         (filter (\<lambda>(remote, name, sha). remoteFilter = [] \<or> remote = remoteFilter)
            (RemoteBranches r))"

text \<open>
  Modelled from the spec: \<^verbatim>\<open>RecentBranches(since, includeRemotes, remoteFilter)\<close>, the
  references of the branches whose tip commit is newer than \<open>since\<close>, newest first (the
  order \<^verbatim>\<open>TestRecentBranches\<close> expects): the local branches, and with \<open>includeRemotes\<close>
  the remote branches.
\<close>

definition RecentBranches :: "Repository \<Rightarrow> int \<Rightarrow> bool \<Rightarrow> string \<Rightarrow> Ref list" where
  "RecentBranches r since includeRemotes remoteFilter =
     sort_key (\<lambda>ref. - CommitDate r (Sha ref))
       (filter (\<lambda>ref. since < CommitDate r (Sha ref))
          (local_refs r @ (if includeRemotes then remote_refs r remoteFilter else [])))"

text \<open>
  The repository of \<^verbatim>\<open>TestRecentBranches\<close> after its commits and pushes, with commit
  \<open>i\<close> named \<^verbatim>\<open>ci\<close> and dates in days relative to the test's \<^verbatim>\<open>now\<close>; a repository
  without commits; and the repository of \<^verbatim>\<open>TestCurrentRefAndCurrentRemoteRef\<close> after its
  commits, with the given branch checked out.
\<close>

definition days_ago :: "string \<Rightarrow> int" where
  "days_ago sha = (if sha = ''c0'' then - 20 else if sha = ''c1'' then - 15
     else if sha = ''c2'' then - 12 else if sha = ''c3'' then - 6
     else if sha = ''c4'' then - 3 else 0)"

definition test_repo :: Repository where
  "test_repo = \<lparr>HEAD = ''master'',
     LocalBranches = [(''master'', ''c5''), (''excluded_branch'', ''c1''),
                      (''included_branch'', ''c3''), (''included_branch_2'', ''c4'')],
     RemoteBranches = [(''origin'', ''master'', ''c5''), (''origin'', ''excluded_branch'', ''c1''),
                       (''origin'', ''included_branch'', ''c3''),
                       (''upstream'', ''master'', ''c5''),
                       (''upstream'', ''included_branch_2'', ''c4'')],
     Tags = [(''excluded_tag'', ''c1'')],
     CommitDate = days_ago\<rparr>"

definition empty_repo :: Repository where
  "empty_repo = \<lparr>HEAD = ''master'', LocalBranches = [], RemoteBranches = [], Tags = [],
     CommitDate = days_ago\<rparr>"

definition branches_repo :: "string \<Rightarrow> Repository" where
  "branches_repo checked_out = \<lparr>HEAD = checked_out,
     LocalBranches = [(''master'', ''c2''), (''branch2'', ''c1''), (''branch3'', ''c3'')],
     RemoteBranches = [], Tags = [], CommitDate = days_ago\<rparr>"

section \<open>The transfer queue\<close>

text \<open>
  Modelled from the spec: the transfer queue and the batching of negotiation requests
  (the callers of \<^verbatim>\<open>Batch\<close>) are not among the sources. The direction of a run.
\<close>

datatype Direction = Upload | Download

text \<open>
  Modelled from the spec: one transferable unit: its content hash, its size in bytes
  and an optional local path.
\<close>

record ObjectDescriptor =
  hash :: string
  size :: nat
  path :: "string option"

text \<open>
  Modelled from the spec: the objects of the wire request (\<^verbatim>\<open>oid\<close>, \<^verbatim>\<open>size\<close>) and of the
  wire response (\<^verbatim>\<open>oid\<close>, \<^verbatim>\<open>size\<close>, \<^verbatim>\<open>actions\<close>, or \<^verbatim>\<open>oid\<close> and an \<^verbatim>\<open>error\<close> with code and
  message); \<^verbatim>\<open>api.ObjectResource\<close> itself is declared in a package that is not among the
  sources.
\<close>

record ObjectResource =
  Oid :: string
  Size :: int
  Actions :: "(string \<times> string) list"
  Error :: "(int \<times> string) option"

text \<open>
  Modelled from the spec: the operation of the wire request, \<^verbatim>\<open>upload\<close> or
  \<^verbatim>\<open>download\<close>.
\<close>

definition direction_string :: "Direction \<Rightarrow> string" where
  "direction_string d = (case d of Upload \<Rightarrow> ''upload'' | Download \<Rightarrow> ''download'')"

text \<open>
  Modelled from the spec: an object of the wire request carries the hash as \<^verbatim>\<open>oid\<close>
  and the size.
\<close>

definition to_resource :: "ObjectDescriptor \<Rightarrow> ObjectResource" where
  "to_resource obj = \<lparr>Oid = hash obj, Size = int (size obj), Actions = [], Error = None\<rparr>"

text \<open>
  Modelled from the spec: the request of one batch: the direction, the objects of
  the batch in their order, and the adapter names the client offers.
\<close>

definition batch_request :: "Direction \<Rightarrow> string list \<Rightarrow> ObjectDescriptor list \<Rightarrow>
    ObjectResource batchRequest" where
  "batch_request d adapters batch =
     \<lparr>Operation = direction_string d,
      Objects = Some (map (\<lambda>obj. Some (to_resource obj)) batch),
      TransferAdapterNames = Some adapters\<rparr>"

text \<open>
  Modelled from the spec: the input is split into batches not exceeding a fixed
  object-count limit. Objects are collected in their order into the current batch,
  which is closed as soon as it holds \<open>limit\<close> objects; what is left at the end is the
  last batch.
\<close>

fun collect_batches :: "nat \<Rightarrow> 'a list \<Rightarrow> 'a list \<Rightarrow> 'a list list" where
  "collect_batches limit cur [] = (if cur = [] then [] else [cur])"
| "collect_batches limit cur (x # xs) =
     (if limit \<le> length (cur @ [x]) then (cur @ [x]) # collect_batches limit [] xs
      else collect_batches limit (cur @ [x]) xs)"



text \<open>
  Modelled from the spec: the error taxonomy: negotiation error, transient and
  non-transient transfer error, verification error, cancellation.
\<close>

datatype failure = NegotiationError | TransientTransferError | NonTransientTransferError
  | VerificationError | Cancellation

text \<open>
  Modelled from the spec: the terminal outcome of one object: its hash, whether it
  succeeded, the error if any, and the bytes transferred.
\<close>

record Result =
  r_hash :: string
  succeeded :: bool
  r_error :: "failure option"
  bytes :: nat

text \<open>
  Modelled from the spec: what the server assigns to one object: the hash, the
  adapter chosen, the action payload, and an optional error code and message.
\<close>

record TransferAction =
  a_hash :: string
  a_adapter :: string
  a_payload :: "(string \<times> string) list"
  a_error :: "(int \<times> string) option"

text \<open>
  Modelled from the spec: the unit of work of the queue: the object, its action, the
  attempt count and the last error.
\<close>

record TransferJob =
  j_object :: ObjectDescriptor
  j_action :: TransferAction
  attempts :: nat
  last_error :: "failure option"

text \<open>
  Modelled from the spec: the states of one run,
  \<^verbatim>\<open>Idle \<rightarrow> Negotiating \<rightarrow> Running \<rightarrow> Draining \<rightarrow> Done\<close>.
\<close>

datatype phase = Idle | Negotiating | Running | Draining | Done

text \<open>
  Modelled from the spec: the configuration of a queue: remote, direction, adapters
  offered (those of the registry), batch limit, retry limit, size of the worker pool.
\<close>

record queue_config =
  q_remote :: string
  q_direction :: Direction
  q_adapters :: "string list"
  batch_limit :: nat
  retry_limit :: nat
  pool_size :: nat

text \<open>
  Modelled from the spec: the state of a run: the deduplicated submission in submission
  order, the batches not yet negotiated, the work queue, the job each busy worker holds,
  the aggregated Results, the final Report once assembled, and the calls made so far.
\<close>

record 'ep queue =
  phase :: phase
  submitted :: "ObjectDescriptor list"
  pending :: "ObjectDescriptor list list"
  work :: "TransferJob list"
  inflight :: "(nat \<times> TransferJob) list"
  results :: "Result list"
  report :: "Result list option"
  calls :: "(ObjectResource, 'ep) event list"

text \<open>
  Modelled from the spec: what a worker's execution of a job ends in: bytes moved and
  whether verification passed, a transient error, a non-transient error, or the abort
  of a canceled transfer.
\<close>

datatype exec_outcome = Transferred nat bool | TransientFailure | NonTransientFailure
  | Interrupted

text \<open>
  Modelled from the spec: the actions of a run. Workers run in parallel and negotiation
  overlaps with execution; a run is one interleaving of these actions, so any schedule
  is a run as long as each action is possible in the state it meets.
\<close>

datatype action = Enqueue "ObjectDescriptor list" | NegotiateNext | Start nat
  | Finish nat exec_outcome | Cancel | Drain | Complete

text \<open>
  Modelled from the spec: a new queue is \<^verbatim>\<open>Idle\<close> and holds nothing.
\<close>

definition init_queue :: "'ep queue" where
  "init_queue = \<lparr>phase = Idle, submitted = [], pending = [], work = [], inflight = [],
     results = [], report = None, calls = []\<rparr>"

text \<open>
  Modelled from the spec: \<^verbatim>\<open>Enqueue\<close> dedupes by hash against the hashes already seen in
  this run, keeping the first of each.
\<close>

fun dedupe :: "string list \<Rightarrow> ObjectDescriptor list \<Rightarrow> ObjectDescriptor list" where
  "dedupe seen [] = []"
| "dedupe seen (obj # objs) =
     (if hash obj \<in> set seen then dedupe seen objs
      else obj # dedupe (hash obj # seen) objs)"

text \<open>
  Modelled from the spec: the Result of an object that failed.
\<close>

definition failed :: "failure \<Rightarrow> ObjectDescriptor \<Rightarrow> Result" where
  "failed f obj = \<lparr>r_hash = hash obj, succeeded = False, r_error = Some f, bytes = 0\<rparr>"

text \<open>
  Modelled from the spec: the entry of a batch response for a hash, the first one
  if there are several.
\<close>

definition find_resource :: "ObjectResource batchResponse \<Rightarrow> string \<Rightarrow> ObjectResource option" where
  "find_resource bRes h =
     (case ResObjects bRes of None \<Rightarrow> None
      | Some ps \<Rightarrow> find (\<lambda>ro. Oid ro = h) (List.map_filter (\<lambda>p. p) ps))"

text \<open>
  Modelled from the spec: the outcome of a successful negotiation for one object.
  A per-object error, and an adapter name in the response that the client does not
  recognise, are negotiation errors of that object alone; so is an object the response
  does not list, since every object yields a Result. Every other object becomes a
  \<^verbatim>\<open>TransferJob\<close> with attempt count 0.
\<close>

definition object_outcome :: "string list \<Rightarrow> ObjectResource batchResponse \<Rightarrow>
    ObjectDescriptor \<Rightarrow> Result + TransferJob" where
  "object_outcome adapters bRes obj =
     (case find_resource bRes (hash obj) of
        None \<Rightarrow> Inl (failed NegotiationError obj)
      | Some ro \<Rightarrow>
          if Error ro \<noteq> None then Inl (failed NegotiationError obj)
          else if TransferAdapterName bRes \<notin> set adapters
          then Inl (failed NegotiationError obj)
          else Inr \<lparr>j_object = obj,
                    j_action = \<lparr>a_hash = Oid ro, a_adapter = TransferAdapterName bRes,
                                a_payload = Actions ro, a_error = None\<rparr>,
                    attempts = 0, last_error = None\<rparr>)"

text \<open>
  Modelled from the spec: the outcomes of one batch. When \<^verbatim>\<open>Batch\<close> returns an error
  the whole batch fails: every object gets a negotiation error. Otherwise each object
  has its own outcome.
\<close>

definition batch_outcomes :: "string list \<Rightarrow> ObjectDescriptor list \<Rightarrow>
    ObjectResource batch_result \<Rightarrow> (Result + TransferJob) list" where
  "batch_outcomes adapters batch res =
     (case res of
        (Some bRes, http, None) \<Rightarrow> map (object_outcome adapters bRes) batch
      | _ \<Rightarrow> map (\<lambda>obj. Inl (failed NegotiationError obj)) batch)"

text \<open>
  The Results and the jobs among the outcomes of a batch, in order.
\<close>

fun lefts :: "('a + 'b) list \<Rightarrow> 'a list" where
  "lefts [] = []"
| "lefts (Inl a # xs) = a # lefts xs"
| "lefts (Inr b # xs) = lefts xs"

fun rights :: "('a + 'b) list \<Rightarrow> 'b list" where
  "rights [] = []"
| "rights (Inl a # xs) = rights xs"
| "rights (Inr b # xs) = b # rights xs"

text \<open>
  Modelled from the spec: the terminal Result of a job: success when the bytes moved
  and verification passed, else the error of its class.
\<close>

definition job_result :: "TransferJob \<Rightarrow> exec_outcome \<Rightarrow> Result" where
  "job_result j out =
     (case out of
        Transferred n verified \<Rightarrow>
          if verified
          then \<lparr>r_hash = hash (j_object j), succeeded = True, r_error = None, bytes = n\<rparr>
          else failed VerificationError (j_object j)
      | TransientFailure \<Rightarrow> failed TransientTransferError (j_object j)
      | NonTransientFailure \<Rightarrow> failed NonTransientTransferError (j_object j)
      | Interrupted \<Rightarrow> failed Cancellation (j_object j))"

text \<open>
  Modelled from the spec: the final Report lists the aggregated Results in
  submission order.
\<close>

definition assemble_report :: "ObjectDescriptor list \<Rightarrow> Result list \<Rightarrow> Result list" where
  "assemble_report objs rs =
     List.map_filter (\<lambda>obj. find (\<lambda>r. r_hash r = hash obj) rs) objs"

text \<open>
  Modelled from the spec: the transitions of the queue; \<open>None\<close> when the action is not
  possible in the state (for \<^verbatim>\<open>Enqueue\<close> once the queue drains or is done, the state
  error). \<^verbatim>\<open>Enqueue\<close> adds the objects whose hash is new, in batches. Negotiating the
  next batch calls \<^verbatim>\<open>Batch\<close>, records the negotiation errors and queues the jobs; the
  first batch response makes the queue \<^verbatim>\<open>Running\<close>. An idle worker of the pool starts
  the next job. A finished job is requeued with one more attempt after a transient
  error while the retry limit allows, and becomes a Result otherwise. Cancellation
  turns whatever has not started into canceled Results and lets busy workers finish.
  The queue drains when nothing is left to negotiate or to run, and the Report is
  assembled when all workers have exited.
\<close>

fun qstep :: "queue_config \<Rightarrow> ((ObjectResource, 'ep) event list \<Rightarrow> (ObjectResource, 'ep) tqClient) \<Rightarrow> action \<Rightarrow> 'ep queue \<Rightarrow>
    'ep queue option" where
  "qstep cfg c (Enqueue objs) q =
     (if phase q = Idle \<or> phase q = Negotiating \<or> phase q = Running
      then Some (q\<lparr>phase := (if phase q = Idle then Negotiating else phase q),
                   submitted := submitted q @ dedupe (map hash (submitted q)) objs,
                   pending := pending q
                     @ collect_batches (batch_limit cfg) []
                         (dedupe (map hash (submitted q)) objs)\<rparr>)
      else None)"
| "qstep cfg c NegotiateNext q =
     (if phase q = Negotiating \<or> phase q = Running
      then (case pending q of
              [] \<Rightarrow> None
            | b # bs \<Rightarrow>
                (case Batch (c (calls q)) (q_remote cfg)
                        (batch_request (q_direction cfg) (q_adapters cfg) b) (calls q) of
                   (res, bReq', tr') \<Rightarrow>
                     Some (q\<lparr>phase := (if snd (snd res) = None then Running else phase q),
                             pending := bs,
                             work := work q @ rights (batch_outcomes (q_adapters cfg) b res),
                             results := results q
                                @ lefts (batch_outcomes (q_adapters cfg) b res),
                             calls := tr'\<rparr>)))
      else None)"
| "qstep cfg c (Start w) q =
     (if phase q = Running \<and> w < pool_size cfg \<and> w \<notin> set (map fst (inflight q))
      then (case work q of
              [] \<Rightarrow> None
            | j # js \<Rightarrow> Some (q\<lparr>work := js, inflight := inflight q @ [(w, j)]\<rparr>))
      else None)"
| "qstep cfg c (Finish w out) q =
     (if phase q = Running \<or> phase q = Draining
      then (case map_of (inflight q) w of
              None \<Rightarrow> None
            | Some j \<Rightarrow>
                if out = TransientFailure \<and> phase q = Running
                   \<and> Suc (attempts j) < retry_limit cfg
                then Some (q\<lparr>inflight := filter (\<lambda>(v, k). v \<noteq> w) (inflight q),
                             work := work q @ [j\<lparr>attempts := Suc (attempts j),
                                                 last_error := Some TransientTransferError\<rparr>]\<rparr>)
                else Some (q\<lparr>inflight := filter (\<lambda>(v, k). v \<noteq> w) (inflight q),
                             results := results q @ [job_result j out]\<rparr>))
      else None)"
| "qstep cfg c Cancel q =
     (if phase q = Negotiating \<or> phase q = Running
      then Some (q\<lparr>phase := Draining, pending := [], work := [],
                   results := results q
                     @ map (failed Cancellation) (concat (pending q))
                     @ map (\<lambda>j. failed Cancellation (j_object j)) (work q)\<rparr>)
      else None)"
| "qstep cfg c Drain q =
     (if (phase q = Negotiating \<or> phase q = Running)
         \<and> pending q = [] \<and> work q = [] \<and> inflight q = []
      then Some (q\<lparr>phase := Draining\<rparr>)
      else None)"
| "qstep cfg c Complete q =
     (if phase q = Draining \<and> inflight q = []
      then Some (q\<lparr>phase := Done,
                   report := Some (assemble_report (submitted q) (results q))\<rparr>)
      else None)"


text \<open>
  A queue with batches of two objects, two attempts per job and two workers, against a
  server that answers every request with the given status and, when decoded, grants
  \<^verbatim>\<open>a\<close> and \<^verbatim>\<open>c\<close> and refuses \<^verbatim>\<open>b\<close>; \<open>steady\<close> is a remote that behaves the same at
  every call.
\<close>

definition descriptor :: "string \<Rightarrow> nat \<Rightarrow> ObjectDescriptor" where
  "descriptor h n = \<lparr>hash = h, size = n, path = None\<rparr>"

definition demo_config :: queue_config where
  "demo_config = \<lparr>q_remote = ''origin'', q_direction = Download, q_adapters = [''basic''],
     batch_limit = 2, retry_limit = 2, pool_size = 2\<rparr>"

definition granted :: "string \<Rightarrow> ObjectResource" where
  "granted h = \<lparr>Oid = h, Size = 1, Actions = [(''download'', ''https://store/'' @ h)],
     Error = None\<rparr>"

definition refused :: "string \<Rightarrow> ObjectResource" where
  "refused h = \<lparr>Oid = h, Size = 1, Actions = [], Error = Some (404, ''not found'')\<rparr>"

definition steady :: "'c \<Rightarrow> 't \<Rightarrow> 'c" where
  "steady c tr = c"

definition granting_client :: "int \<Rightarrow> (ObjectResource, string) tqClient" where
  "granting_client status =
     \<lparr>Endpoint = (\<lambda>operation remote. remote @ ''/'' @ operation),
      NewRequest = (\<lambda>method e suffix body. Inr \<lparr>Method = method, URL = e @ ''/'' @ suffix\<rparr>),
      DoWithAuth = (\<lambda>remote req. Inr \<lparr>StatusCode = status, Body = []\<rparr>),
      DecodeJSON = (\<lambda>res bRes.
        (bRes\<lparr>TransferAdapterName := ''basic'',
               ResObjects := Some [Some (granted ''a''), Some (refused ''b''),
                                   Some (granted ''c'')]\<rparr>, None))\<rparr>"


text \<open>
  The hash of a job, the hashes a state accounts for (in a batch not yet negotiated, in
  the work queue, held by a worker, or with a Result), and the invariant of the queue:
  every submitted hash is accounted for exactly once.
\<close>

definition jh :: "TransferJob \<Rightarrow> string" where
  "jh j = hash (j_object j)"







text \<open>
  A queue that has accepted three objects in two batches and negotiated none.
\<close>

definition demo_negotiating :: "string queue" where
  "demo_negotiating = init_queue\<lparr>phase := Negotiating,
     submitted := [descriptor ''a'' 1, descriptor ''b'' 2, descriptor ''c'' 3],
     pending := [[descriptor ''a'' 1, descriptor ''b'' 2], [descriptor ''c'' 3]]\<rparr>"

section \<open>Properties of \<^verbatim>\<open>Batch\<close>\<close>

text \<open>
  C2. A request whose object list is empty (nil or of length 0) is answered with the
  empty batch response, no HTTP response and a nil error; no call leaves \<^verbatim>\<open>Batch\<close>, so
  the remote is never contacted, and the request is as it was.
\<close>

theorem Batch_empty_objects:
  assumes "len_slice (Objects bReq) = 0"
  shows "Batch c remote bReq tr =
           ((Some \<lparr>TransferAdapterName = [], ResObjects = None\<rparr>, None, None), bReq, tr)"
  using assms by (simp add: Batch_def)

theorem Batch_empty_objects_witness:
  "len_slice (Objects (download_request (Some []) (Some [''basic'']))) = 0
   \<and> Batch offline_client ''origin'' (download_request (Some []) (Some [''basic''])) [] =
       ((Some \<lparr>TransferAdapterName = [], ResObjects = None\<rparr>, None, None),
        download_request (Some []) (Some [''basic'']), [])"
proof -
  have h: "len_slice (Objects (download_request (Some []) (Some [''basic'']))) = 0"
    by (simp add: len_slice_def download_request_def)
  from Batch_empty_objects [OF h, of offline_client "''origin''" "[]"] h
  show ?thesis by simp
qed

lemma singleton_slice:
  "(len_slice s = 1 \<and> slice_at s 0 = Some x) = (s = Some [x])"
proof (cases s)
  case None
  then show ?thesis by (simp add: len_slice_def)
next
  case (Some xs)
  then show ?thesis
    by (cases xs) (auto simp add: len_slice_def slice_at_def)
qed

lemma Batch_request_after:
  "batch_request_after (Batch c remote bReq tr) =
     (if len_slice (Objects bReq) \<noteq> 0 \<and> TransferAdapterNames bReq = Some [''basic'']
      then bReq\<lparr>TransferAdapterNames := None\<rparr> else bReq)"
  unfolding Batch_def batch_request_after_def singleton_slice
  by (simp add: Let_def split: sum.splits prod.splits)

lemma wire_bodies_Batch:
  "wire_bodies enc (batch_events (Batch c remote bReq [])) =
     (if len_slice (Objects bReq) = 0 then []
      else [marshal_batchRequest enc (batch_request_after (Batch c remote bReq []))])"
  unfolding Batch_def batch_request_after_def batch_events_def wire_bodies_def singleton_slice
  by (simp add: Let_def List.map_filter_simps split: sum.splits prod.splits)

text \<open>
  C3. When the adapter-name list of the request is exactly the single name \<^verbatim>\<open>basic\<close>,
  the body of the wire request has the fields \<^verbatim>\<open>operation\<close> and \<^verbatim>\<open>objects\<close> only: the
  \<^verbatim>\<open>transfers\<close> field is omitted. (With an empty object list there is no wire request.)
\<close>

theorem Batch_basic_omits_transfers:
  assumes "TransferAdapterNames bReq = Some [''basic'']"
  shows "wire_bodies enc (batch_events (Batch c remote bReq [])) =
           (if len_slice (Objects bReq) = 0 then []
            else [JObject [(''operation'', JString (Operation bReq)),
                           (''objects'', (case Objects bReq of None \<Rightarrow> JNull
                              | Some os \<Rightarrow> JArray (map (marshal_ptr enc) os)))]])"
  using assms
  by (simp add: wire_bodies_Batch Batch_request_after marshal_batchRequest_def len_slice_def)

lemma Batch_nonempty:
  assumes "len_slice (Objects bReq) \<noteq> 0"
    and "body = (if TransferAdapterNames bReq = Some [''basic'']
                 then bReq\<lparr>TransferAdapterNames := None\<rparr> else bReq)"
  shows "Batch c remote bReq tr =
     (case NewRequest c ''POST'' (Endpoint c (Operation bReq) remote) ''objects/batch'' body of
        Inl err \<Rightarrow> ((None, None, Some (Wrap err ''batch request'')), body,
                    tr @ [EvNewRequest ''POST'' (Endpoint c (Operation bReq) remote)
                            ''objects/batch'' body])
      | Inr req \<Rightarrow>
          (case DoWithAuth c remote req of
             Inl err \<Rightarrow> ((None, None, Some (Wrap err ''batch response'')), body,
                 tr @ [EvNewRequest ''POST'' (Endpoint c (Operation bReq) remote)
                         ''objects/batch'' body,
                       EvTrace ''api: batch %d files'' [ArgD (int (len_slice (Objects bReq)))],
                       EvDoWithAuth remote req,
                       EvTrace ''api error: %s'' [ArgE err]])
           | Inr res \<Rightarrow>
               (if StatusCode res \<noteq> 200
                then ((None, Some res,
                       Some (Errorf ''Invalid status for %s %s: %d''
                               [ArgS (Method req), ArgS (before_query (URL req)),
                                ArgD (StatusCode res)])),
                      body,
                      tr @ [EvNewRequest ''POST'' (Endpoint c (Operation bReq) remote)
                              ''objects/batch'' body,
                            EvTrace ''api: batch %d files''
                              [ArgD (int (len_slice (Objects bReq)))],
                            EvDoWithAuth remote req,
                            EvLogResponse ''lfs.batch'' res])
                else ((Some (fst (DecodeJSON c res
                                    \<lparr>TransferAdapterName = [], ResObjects = None\<rparr>)),
                       Some res,
                       snd (DecodeJSON c res \<lparr>TransferAdapterName = [], ResObjects = None\<rparr>)),
                      body,
                      tr @ [EvNewRequest ''POST'' (Endpoint c (Operation bReq) remote)
                              ''objects/batch'' body,
                            EvTrace ''api: batch %d files''
                              [ArgD (int (len_slice (Objects bReq)))],
                            EvDoWithAuth remote req,
                            EvLogResponse ''lfs.batch'' res,
                            EvDecodeJSON res]))))"
proof (cases "TransferAdapterNames bReq = Some [''basic'']")
  case True
  with assms show ?thesis
    unfolding Batch_def singleton_slice
    by (simp add: Let_def split: sum.splits prod.splits)
next
  case False
  with assms show ?thesis
    unfolding Batch_def singleton_slice
    by (simp add: Let_def split: sum.splits prod.splits)
qed

lemma Batch_events_nonempty:
  assumes "len_slice (Objects bReq) \<noteq> 0"
  shows "batch_events (Batch c remote bReq []) =
     EvNewRequest ''POST'' (Endpoint c (Operation bReq) remote) ''objects/batch''
        (batch_request_after (Batch c remote bReq []))
     # (case NewRequest c ''POST'' (Endpoint c (Operation bReq) remote) ''objects/batch''
               (batch_request_after (Batch c remote bReq [])) of
          Inl err \<Rightarrow> []
        | Inr req \<Rightarrow>
            EvTrace ''api: batch %d files'' [ArgD (int (len_slice (Objects bReq)))]
            # EvDoWithAuth remote req
            # (case DoWithAuth c remote req of
                 Inl err \<Rightarrow> [EvTrace ''api error: %s'' [ArgE err]]
               | Inr res \<Rightarrow> EvLogResponse ''lfs.batch'' res
                   # (if StatusCode res \<noteq> 200 then [] else [EvDecodeJSON res])))"
  unfolding Batch_request_after
  by (subst Batch_nonempty [OF assms refl])
     (simp add: assms batch_events_def split: sum.splits)

lemma Batch_result_nonempty:
  assumes "len_slice (Objects bReq) \<noteq> 0"
  shows "fst (Batch c remote bReq tr) =
     (case NewRequest c ''POST'' (Endpoint c (Operation bReq) remote) ''objects/batch''
               (batch_request_after (Batch c remote bReq tr)) of
          Inl err \<Rightarrow> (None, None, Some (Wrap err ''batch request''))
        | Inr req \<Rightarrow>
            (case DoWithAuth c remote req of
                 Inl err \<Rightarrow> (None, None, Some (Wrap err ''batch response''))
               | Inr res \<Rightarrow>
                   if StatusCode res \<noteq> 200
                   then (None, Some res,
                         Some (Errorf ''Invalid status for %s %s: %d''
                                 [ArgS (Method req), ArgS (before_query (URL req)),
                                  ArgD (StatusCode res)]))
                   else (Some (fst (DecodeJSON c res \<lparr>TransferAdapterName = [], ResObjects = None\<rparr>)),
                         Some res,
                         snd (DecodeJSON c res \<lparr>TransferAdapterName = [], ResObjects = None\<rparr>))))"
  unfolding Batch_request_after
  by (subst Batch_nonempty [OF assms refl])
     (simp add: assms split: sum.splits)

text \<open>
  C6. For a request with a non-empty object list, the first call of \<^verbatim>\<open>Batch\<close> builds a
  \<^verbatim>\<open>POST\<close> request to \<^verbatim>\<open>objects/batch\<close> under the endpoint resolved for the request's
  operation and the remote, and that request, once built, is the one request sent. Its
  JSON body has the fields \<^verbatim>\<open>operation\<close> (the operation string), \<^verbatim>\<open>objects\<close> (the object
  list) and, unless the adapter-name list sent is empty, \<^verbatim>\<open>transfers\<close> (that list).
\<close>

theorem Batch_posts_objects_batch:
  assumes "len_slice (Objects bReq) \<noteq> 0"
  shows "take 1 (batch_events (Batch c remote bReq [])) =
           [EvNewRequest ''POST'' (Endpoint c (Operation bReq) remote) ''objects/batch''
              (batch_request_after (Batch c remote bReq []))]
       \<and> filter is_network_call (batch_events (Batch c remote bReq [])) =
           (case NewRequest c ''POST'' (Endpoint c (Operation bReq) remote) ''objects/batch''
                   (batch_request_after (Batch c remote bReq [])) of
              Inl err \<Rightarrow> [] | Inr req \<Rightarrow> [EvDoWithAuth remote req])
       \<and> wire_bodies enc (batch_events (Batch c remote bReq [])) =
           [marshal_batchRequest enc (batch_request_after (Batch c remote bReq []))]
       \<and> json_fields (marshal_batchRequest enc (batch_request_after (Batch c remote bReq []))) =
           ''operation'' # ''objects'' #
           (if len_slice (TransferAdapterNames (batch_request_after (Batch c remote bReq []))) = 0
            then [] else [''transfers''])
       \<and> json_field ''operation''
             (marshal_batchRequest enc (batch_request_after (Batch c remote bReq []))) =
           Some (JString (Operation bReq))
       \<and> json_field ''objects''
             (marshal_batchRequest enc (batch_request_after (Batch c remote bReq []))) =
           Some (case Objects bReq of None \<Rightarrow> JNull
                 | Some os \<Rightarrow> JArray (map (marshal_ptr enc) os))
       \<and> json_field ''transfers''
             (marshal_batchRequest enc (batch_request_after (Batch c remote bReq []))) =
           (case TransferAdapterNames (batch_request_after (Batch c remote bReq [])) of
              None \<Rightarrow> None
            | Some ns \<Rightarrow> if ns = [] then None else Some (JArray (map JString ns)))"
proof -
  let ?body = "batch_request_after (Batch c remote bReq [])"
  have ev: "batch_events (Batch c remote bReq []) =
     EvNewRequest ''POST'' (Endpoint c (Operation bReq) remote) ''objects/batch'' ?body
     # (case NewRequest c ''POST'' (Endpoint c (Operation bReq) remote) ''objects/batch'' ?body of
          Inl err \<Rightarrow> []
        | Inr req \<Rightarrow>
            EvTrace ''api: batch %d files'' [ArgD (int (len_slice (Objects bReq)))]
            # EvDoWithAuth remote req
            # (case DoWithAuth c remote req of
                 Inl err \<Rightarrow> [EvTrace ''api error: %s'' [ArgE err]]
               | Inr res \<Rightarrow> EvLogResponse ''lfs.batch'' res
                   # (if StatusCode res \<noteq> 200 then [] else [EvDecodeJSON res])))"
    by (rule Batch_events_nonempty [OF assms])
  have a: "take 1 (batch_events (Batch c remote bReq [])) =
           [EvNewRequest ''POST'' (Endpoint c (Operation bReq) remote) ''objects/batch'' ?body]"
    by (subst ev) simp
  have b: "filter is_network_call (batch_events (Batch c remote bReq [])) =
           (case NewRequest c ''POST'' (Endpoint c (Operation bReq) remote) ''objects/batch'' ?body of
              Inl err \<Rightarrow> [] | Inr req \<Rightarrow> [EvDoWithAuth remote req])"
    by (subst ev) (simp split: sum.splits)
  have c: "wire_bodies enc (batch_events (Batch c remote bReq [])) = [marshal_batchRequest enc ?body]"
    using assms by (simp add: wire_bodies_Batch)
  have body: "Operation ?body = Operation bReq" "Objects ?body = Objects bReq"
    by (simp_all add: Batch_request_after)
  have d: "json_fields (marshal_batchRequest enc ?body) =
           ''operation'' # ''objects'' #
           (if len_slice (TransferAdapterNames ?body) = 0 then [] else [''transfers''])"
    by (simp add: json_fields_def marshal_batchRequest_def)
  have e: "json_field ''operation'' (marshal_batchRequest enc ?body) = Some (JString (Operation bReq))"
    by (simp add: json_field_def marshal_batchRequest_def body)
  have f: "json_field ''objects'' (marshal_batchRequest enc ?body) =
           Some (case Objects bReq of None \<Rightarrow> JNull
                 | Some os \<Rightarrow> JArray (map (marshal_ptr enc) os))"
    by (simp add: json_field_def marshal_batchRequest_def body)
  have g: "json_field ''transfers'' (marshal_batchRequest enc ?body) =
           (case TransferAdapterNames ?body of
              None \<Rightarrow> None
            | Some ns \<Rightarrow> if ns = [] then None else Some (JArray (map JString ns)))"
    by (simp add: json_field_def marshal_batchRequest_def len_slice_def split: option.splits)
  from a b c d e f g show ?thesis by blast
qed


lemmas run_defs = Batch_def Let_def len_slice_def slice_at_def reply_client_def
  norequest_client_def offline_client_def download_request_def batch_response_def
  batch_http_def batch_error_def batch_request_after_def batch_events_def

theorem Batch_posts_objects_batch_witness:
  "len_slice (Objects (download_request (Some [Some ''oid1'']) (Some [''tus'']))) \<noteq> 0
   \<and> take 1 (batch_events (Batch (reply_client 200 None) ''origin''
        (download_request (Some [Some ''oid1'']) (Some [''tus''])) [])) =
       [EvNewRequest ''POST'' ''origin/download'' ''objects/batch''
          (download_request (Some [Some ''oid1'']) (Some [''tus'']))]
   \<and> filter is_network_call (batch_events (Batch (reply_client 200 None) ''origin''
        (download_request (Some [Some ''oid1'']) (Some [''tus''])) [])) =
       [EvDoWithAuth ''origin'' \<lparr>Method = ''POST'', URL = ''origin/download/objects/batch''\<rparr>]
   \<and> wire_bodies enc_oid (batch_events (Batch (reply_client 200 None) ''origin''
        (download_request (Some [Some ''oid1'']) (Some [''tus''])) [])) =
       [JObject [(''operation'', JString ''download''),
                 (''objects'', JArray [JObject [(''oid'', JString ''oid1'')]]),
                 (''transfers'', JArray [JString ''tus''])]]"
proof -
  have h: "len_slice (Objects (download_request (Some [Some ''oid1'']) (Some [''tus'']))) \<noteq> 0"
    by (simp add: len_slice_def download_request_def)
  have r: "batch_request_after (Batch (reply_client 200 None) ''origin''
        (download_request (Some [Some ''oid1'']) (Some [''tus''])) []) =
        download_request (Some [Some ''oid1'']) (Some [''tus''])"
    by (simp add: run_defs)
  have m: "marshal_batchRequest enc_oid (download_request (Some [Some ''oid1'']) (Some [''tus''])) =
       JObject [(''operation'', JString ''download''),
                 (''objects'', JArray [JObject [(''oid'', JString ''oid1'')]]),
                 (''transfers'', JArray [JString ''tus''])]"
    by (simp add: marshal_batchRequest_def marshal_ptr_def enc_oid_def download_request_def
        len_slice_def)
  from Batch_posts_objects_batch [OF h, of "reply_client 200 None" "''origin''" enc_oid] h r m
  show ?thesis
    by (simp add: reply_client_def download_request_def)
qed

theorem Batch_basic_omits_transfers_witness:
  "TransferAdapterNames (download_request (Some [Some ''oid1'']) (Some [''basic''])) =
     Some [''basic'']
   \<and> wire_bodies enc_oid (batch_events (Batch (reply_client 200 None) ''origin''
        (download_request (Some [Some ''oid1'']) (Some [''basic''])) [])) =
       [JObject [(''operation'', JString ''download''),
                 (''objects'', JArray [JObject [(''oid'', JString ''oid1'')]])]]"
proof -
  have h: "TransferAdapterNames (download_request (Some [Some ''oid1'']) (Some [''basic''])) =
     Some [''basic'']"
    by (simp add: download_request_def)
  from Batch_basic_omits_transfers [OF h, of enc_oid "reply_client 200 None" "''origin''"] h
  show ?thesis
    by (simp add: download_request_def len_slice_def marshal_ptr_def enc_oid_def)
qed

text \<open>
  C10. An adapter-name list of two or more names, or of a single name other than
  \<^verbatim>\<open>basic\<close>, is sent as it is: the body of the wire request is the encoding of the
  unchanged request, whose \<^verbatim>\<open>transfers\<close> field is the whole list, \<^verbatim>\<open>basic\<close> included
  when it stands beside other names.
\<close>

theorem Batch_other_names_verbatim:
  assumes "TransferAdapterNames bReq = Some ns"
    and "2 \<le> length ns \<or> (length ns = 1 \<and> ns ! 0 \<noteq> ''basic'')"
  shows "wire_bodies enc (batch_events (Batch c remote bReq [])) =
           (if len_slice (Objects bReq) = 0 then [] else [marshal_batchRequest enc bReq])
       \<and> json_field ''transfers'' (marshal_batchRequest enc bReq) =
           Some (JArray (map JString ns))"
proof -
  from assms have ne: "ns \<noteq> [''basic'']" "ns \<noteq> []" by auto
  with assms(1) have "batch_request_after (Batch c remote bReq []) = bReq"
    by (simp add: Batch_request_after)
  then have a: "wire_bodies enc (batch_events (Batch c remote bReq [])) =
           (if len_slice (Objects bReq) = 0 then [] else [marshal_batchRequest enc bReq])"
    by (simp add: wire_bodies_Batch)
  have b: "json_field ''transfers'' (marshal_batchRequest enc bReq) =
           Some (JArray (map JString ns))"
    using assms(1) ne(2) by (simp add: json_field_def marshal_batchRequest_def len_slice_def)
  from a b show ?thesis by simp
qed

theorem Batch_other_names_verbatim_witness:
  "TransferAdapterNames (download_request (Some [Some ''oid1'']) (Some [''basic'', ''tus''])) =
     Some [''basic'', ''tus'']
   \<and> 2 \<le> length [''basic'', ''tus'']
   \<and> wire_bodies enc_oid (batch_events (Batch (reply_client 200 None) ''origin''
        (download_request (Some [Some ''oid1'']) (Some [''basic'', ''tus''])) [])) =
       [JObject [(''operation'', JString ''download''),
                 (''objects'', JArray [JObject [(''oid'', JString ''oid1'')]]),
                 (''transfers'', JArray [JString ''basic'', JString ''tus''])]]"
proof -
  have h1: "TransferAdapterNames
      (download_request (Some [Some ''oid1'']) (Some [''basic'', ''tus''])) =
     Some [''basic'', ''tus'']"
    by (simp add: download_request_def)
  have h2: "2 \<le> length [''basic'', ''tus'']
     \<or> (length [''basic'', ''tus''] = 1 \<and> [''basic'', ''tus''] ! 0 \<noteq> ''basic'')"
    by simp
  from Batch_other_names_verbatim [OF h1 h2, of enc_oid "reply_client 200 None" "''origin''"] h1
  show ?thesis
    by (simp add: download_request_def len_slice_def marshal_batchRequest_def marshal_ptr_def
        enc_oid_def)
qed

text \<open>
  C8 as stated fails on a request with no objects: \<^verbatim>\<open>Batch\<close> returns at its first guard
  and the adapter-name list of the caller's request is still the single name \<^verbatim>\<open>basic\<close>.
\<close>

theorem Batch_mutates_names_counterexample:
  "TransferAdapterNames (download_request (Some []) (Some [''basic''])) = Some [''basic'']
   \<and> TransferAdapterNames (batch_request_after (Batch (reply_client 200 None) ''origin''
         (download_request (Some []) (Some [''basic''])) [])) = Some [''basic'']"
  by (simp add: run_defs)

text \<open>
  C8, as amended. For a request whose \<^verbatim>\<open>TransferAdapterNames\<close> is exactly the single name
  \<^verbatim>\<open>basic\<close>, the caller's request has \<^verbatim>\<open>TransferAdapterNames\<close> nil after \<^verbatim>\<open>Batch\<close> returns
  when its object list is non-empty; when the object list is empty \<^verbatim>\<open>Batch\<close> returns
  before the assignment and the field keeps its value. \<^verbatim>\<open>Operation\<close> and \<^verbatim>\<open>Objects\<close> are
  unchanged in both cases.
\<close>

theorem Batch_mutates_names:
  assumes "TransferAdapterNames bReq = Some [''basic'']"
  shows "TransferAdapterNames (batch_request_after (Batch c remote bReq tr)) =
           (if len_slice (Objects bReq) = 0 then Some [''basic''] else None)
       \<and> Operation (batch_request_after (Batch c remote bReq tr)) = Operation bReq
       \<and> Objects (batch_request_after (Batch c remote bReq tr)) = Objects bReq"
  using assms by (simp add: Batch_request_after)

theorem Batch_mutates_names_witness:
  "TransferAdapterNames (download_request (Some [Some ''oid1'']) (Some [''basic''])) =
     Some [''basic'']
   \<and> batch_request_after (Batch (reply_client 200 None) ''origin''
        (download_request (Some [Some ''oid1'']) (Some [''basic''])) []) =
       download_request (Some [Some ''oid1'']) None"
proof -
  have h: "TransferAdapterNames (download_request (Some [Some ''oid1'']) (Some [''basic''])) =
     Some [''basic'']"
    by (simp add: download_request_def)
  have r: "batch_request_after (Batch (reply_client 200 None) ''origin''
        (download_request (Some [Some ''oid1'']) (Some [''basic''])) []) =
       \<lparr>Operation = Operation (batch_request_after (Batch (reply_client 200 None) ''origin''
           (download_request (Some [Some ''oid1'']) (Some [''basic''])) [])),
        Objects = Objects (batch_request_after (Batch (reply_client 200 None) ''origin''
           (download_request (Some [Some ''oid1'']) (Some [''basic''])) [])),
        TransferAdapterNames = TransferAdapterNames (batch_request_after
           (Batch (reply_client 200 None) ''origin''
             (download_request (Some [Some ''oid1'']) (Some [''basic''])) []))\<rparr>"
    by simp
  from Batch_mutates_names [OF h, of "reply_client 200 None" "''origin''" "[]"] h
  show ?thesis
    by (subst r) (simp add: download_request_def len_slice_def)
qed

text \<open>
  C9. For a request with a non-empty object list: when the construction of the request
  fails, or the transport fails, \<^verbatim>\<open>Batch\<close> returns a nil batch response, a nil HTTP
  response and the wrapped error; when the response has a status other than 200 it
  returns a nil batch response, the HTTP response itself and an error naming the method,
  the URL up to its query and the status.
\<close>

theorem Batch_failure_results:
  assumes "len_slice (Objects bReq) \<noteq> 0"
  shows "(\<forall>err. NewRequest c ''POST'' (Endpoint c (Operation bReq) remote) ''objects/batch''
                  (batch_request_after (Batch c remote bReq tr)) = Inl err
            \<longrightarrow> batch_response (Batch c remote bReq tr) = None
              \<and> batch_http (Batch c remote bReq tr) = None
              \<and> batch_error (Batch c remote bReq tr) = Some (Wrap err ''batch request''))
       \<and> (\<forall>req err. NewRequest c ''POST'' (Endpoint c (Operation bReq) remote) ''objects/batch''
                  (batch_request_after (Batch c remote bReq tr)) = Inr req
              \<and> DoWithAuth c remote req = Inl err
            \<longrightarrow> batch_response (Batch c remote bReq tr) = None
              \<and> batch_http (Batch c remote bReq tr) = None
              \<and> batch_error (Batch c remote bReq tr) = Some (Wrap err ''batch response''))
       \<and> (\<forall>req res. NewRequest c ''POST'' (Endpoint c (Operation bReq) remote) ''objects/batch''
                  (batch_request_after (Batch c remote bReq tr)) = Inr req
              \<and> DoWithAuth c remote req = Inr res \<and> StatusCode res \<noteq> 200
            \<longrightarrow> batch_response (Batch c remote bReq tr) = None
              \<and> batch_http (Batch c remote bReq tr) = Some res
              \<and> batch_error (Batch c remote bReq tr) =
                  Some (Errorf ''Invalid status for %s %s: %d''
                          [ArgS (Method req), ArgS (before_query (URL req)),
                           ArgD (StatusCode res)]))"
  by (simp add: batch_response_def batch_http_def batch_error_def
      Batch_result_nonempty [OF assms])

theorem Batch_failure_results_witness:
  "len_slice (Objects (download_request (Some [Some ''oid1'']) None)) \<noteq> 0
   \<and> fst (Batch norequest_client ''origin'' (download_request (Some [Some ''oid1'']) None) []) =
       (None, None, Some (Wrap (External ''bad endpoint'') ''batch request''))
   \<and> fst (Batch offline_client ''origin'' (download_request (Some [Some ''oid1'']) None) []) =
       (None, None, Some (Wrap (External ''connection refused'') ''batch response''))
   \<and> fst (Batch (reply_client 404 None) ''origin''
            (download_request (Some [Some ''oid1'']) None) []) =
       (None, Some \<lparr>StatusCode = 404, Body = []\<rparr>,
        Some (Errorf ''Invalid status for %s %s: %d''
                [ArgS ''POST'', ArgS ''origin/download/objects/batch'', ArgD 404]))"
proof -
  let ?r = "download_request (Some [Some ''oid1'']) None"
  have h: "len_slice (Objects ?r) \<noteq> 0"
    by (simp add: len_slice_def download_request_def)
  have body: "\<And>c. batch_request_after (Batch c ''origin'' ?r []) = ?r"
    by (simp add: Batch_request_after download_request_def)
  have p: "\<And>x. x = (fst x, fst (snd x), snd (snd x))" by simp
  have n1: "NewRequest norequest_client ''POST''
              (Endpoint norequest_client (Operation ?r) ''origin'') ''objects/batch'' ?r =
            Inl (External ''bad endpoint'')"
    by (simp add: norequest_client_def reply_client_def)
  have n2: "NewRequest offline_client ''POST''
              (Endpoint offline_client (Operation ?r) ''origin'') ''objects/batch'' ?r =
            Inr \<lparr>Method = ''POST'', URL = ''origin/download/objects/batch''\<rparr>
          \<and> DoWithAuth offline_client ''origin''
              \<lparr>Method = ''POST'', URL = ''origin/download/objects/batch''\<rparr> =
            Inl (External ''connection refused'')"
    by (simp add: offline_client_def reply_client_def download_request_def)
  have n3: "NewRequest (reply_client 404 None) ''POST''
              (Endpoint (reply_client 404 None) (Operation ?r) ''origin'') ''objects/batch'' ?r =
            Inr \<lparr>Method = ''POST'', URL = ''origin/download/objects/batch''\<rparr>
          \<and> DoWithAuth (reply_client 404 None) ''origin''
              \<lparr>Method = ''POST'', URL = ''origin/download/objects/batch''\<rparr> =
            Inr \<lparr>StatusCode = 404, Body = []\<rparr>
          \<and> StatusCode \<lparr>StatusCode = 404, Body = []\<rparr> \<noteq> 200"
    by (simp add: reply_client_def download_request_def)
  have a: "fst (Batch norequest_client ''origin'' ?r []) =
       (None, None, Some (Wrap (External ''bad endpoint'') ''batch request''))"
    using Batch_failure_results [OF h, of norequest_client "''origin''" "[]"] n1
    by (subst p) (simp add: body batch_response_def batch_http_def batch_error_def)
  have b: "fst (Batch offline_client ''origin'' ?r []) =
       (None, None, Some (Wrap (External ''connection refused'') ''batch response''))"
    using Batch_failure_results [OF h, of offline_client "''origin''" "[]"] n2
    by (subst p) (simp add: body batch_response_def batch_http_def batch_error_def)
  have c: "fst (Batch (reply_client 404 None) ''origin'' ?r []) =
       (None, Some \<lparr>StatusCode = 404, Body = []\<rparr>,
        Some (Errorf ''Invalid status for %s %s: %d''
                [ArgS ''POST'', ArgS ''origin/download/objects/batch'', ArgD 404]))"
    using Batch_failure_results [OF h, of "reply_client 404 None" "''origin''" "[]"] n3
    by (subst p) (simp add: body batch_response_def batch_http_def batch_error_def
        before_query_def)
  from h a b c show ?thesis by simp
qed

text \<open>
  C1 as stated fails at status 201: the status is in the 2xx class and \<^verbatim>\<open>Batch\<close> returns
  an error all the same, since it compares the status with 200.
\<close>

theorem Batch_error_iff_2xx_counterexample:
  "len_slice (Objects (download_request (Some [Some ''oid1'']) None)) \<noteq> 0
   \<and> batch_http (Batch (reply_client 201 None) ''origin''
        (download_request (Some [Some ''oid1'']) None) []) = Some \<lparr>StatusCode = 201, Body = []\<rparr>
   \<and> status_2xx 201
   \<and> batch_error (Batch (reply_client 201 None) ''origin''
        (download_request (Some [Some ''oid1'']) None) []) \<noteq> None"
  by (simp add: run_defs status_2xx_def)



section \<open>Properties of the version-control references\<close>




text \<open>The model returns what the tests of the package expect.\<close>

lemma TestCurrentRef:
  "CurrentRef (branches_repo ''branch3'') =
     Inr \<lparr>Name = ''branch3'', Type = RefTypeLocalBranch, Sha = ''c3''\<rparr>
   \<and> CurrentRef (branches_repo ''master'') =
     Inr \<lparr>Name = ''master'', Type = RefTypeLocalBranch, Sha = ''c2''\<rparr>"
  by (simp add: CurrentRef_def branches_repo_def)

lemma TestResolveEmptyCurrentRef: "\<exists>err. CurrentRef empty_repo = Inl err"
  by (simp add: CurrentRef_def empty_repo_def)

lemmas test_repo_defs = RecentBranches_def local_refs_def remote_refs_def test_repo_def
  days_ago_def

lemma TestRecentBranches_local_only:
  "RecentBranches test_repo (- 7) False [] =
     [\<lparr>Name = ''master'', Type = RefTypeLocalBranch, Sha = ''c5''\<rparr>,
      \<lparr>Name = ''included_branch_2'', Type = RefTypeLocalBranch, Sha = ''c4''\<rparr>,
      \<lparr>Name = ''included_branch'', Type = RefTypeLocalBranch, Sha = ''c3''\<rparr>]"
  by (simp add: test_repo_defs)

lemma TestRecentBranches_all_remotes:
  "set (RecentBranches test_repo (- 7) True []) =
     {\<lparr>Name = ''master'', Type = RefTypeLocalBranch, Sha = ''c5''\<rparr>,
      \<lparr>Name = ''included_branch_2'', Type = RefTypeLocalBranch, Sha = ''c4''\<rparr>,
      \<lparr>Name = ''included_branch'', Type = RefTypeLocalBranch, Sha = ''c3''\<rparr>,
      \<lparr>Name = ''upstream/master'', Type = RefTypeRemoteBranch, Sha = ''c5''\<rparr>,
      \<lparr>Name = ''upstream/included_branch_2'', Type = RefTypeRemoteBranch, Sha = ''c4''\<rparr>,
      \<lparr>Name = ''origin/master'', Type = RefTypeRemoteBranch, Sha = ''c5''\<rparr>,
      \<lparr>Name = ''origin/included_branch'', Type = RefTypeRemoteBranch, Sha = ''c3''\<rparr>}
   \<and> length (RecentBranches test_repo (- 7) True []) = 7"
  by (simp add: test_repo_defs insert_commute)

lemma TestRecentBranches_single_remote:
  "set (RecentBranches test_repo (- 7) True ''origin'') =
     {\<lparr>Name = ''master'', Type = RefTypeLocalBranch, Sha = ''c5''\<rparr>,
      \<lparr>Name = ''origin/master'', Type = RefTypeRemoteBranch, Sha = ''c5''\<rparr>,
      \<lparr>Name = ''included_branch_2'', Type = RefTypeLocalBranch, Sha = ''c4''\<rparr>,
      \<lparr>Name = ''included_branch'', Type = RefTypeLocalBranch, Sha = ''c3''\<rparr>,
      \<lparr>Name = ''origin/included_branch'', Type = RefTypeRemoteBranch, Sha = ''c3''\<rparr>}
   \<and> length (RecentBranches test_repo (- 7) True ''origin'') = 5"
  by (simp add: test_repo_defs insert_commute)

section \<open>Properties of the transfer queue\<close>









lemma r_hash_failed [simp]: "r_hash (failed f obj) = hash obj"
  by (simp add: failed_def)

lemma r_hash_job_result [simp]: "r_hash (job_result j out) = jh j"
  by (simp add: job_result_def jh_def split: exec_outcome.splits)

lemma jh_retry [simp]: "jh (j\<lparr>attempts := n, last_error := e\<rparr>) = jh j"
  by (simp add: jh_def)






























lemma NegotiateNext_failed_batch:
  assumes "phase q = Negotiating \<or> phase q = Running"
    and "pending q = b # bs"
    and "batch_error (Batch (c (calls q)) (q_remote cfg)
           (batch_request (q_direction cfg) (q_adapters cfg) b) (calls q)) \<noteq> None"
  shows "\<exists>q'. qstep cfg c NegotiateNext q = Some q'
           \<and> results q' = results q @ map (failed NegotiationError) b
           \<and> work q' = work q \<and> inflight q' = inflight q \<and> pending q' = bs
           \<and> phase q' = phase q"
proof -
  obtain bRes http err bReq' tr' where B: "Batch (c (calls q)) (q_remote cfg)
      (batch_request (q_direction cfg) (q_adapters cfg) b) (calls q) =
      ((bRes, http, err), bReq', tr')"
    by (cases "Batch (c (calls q)) (q_remote cfg)
      (batch_request (q_direction cfg) (q_adapters cfg) b) (calls q)") auto
  with assms(3) obtain e where e: "err = Some e"
    by (auto simp add: batch_error_def)
  have outs: "batch_outcomes (q_adapters cfg) b (bRes, http, Some e) =
      map (\<lambda>obj. Inl (failed NegotiationError obj)) b"
    by (simp add: batch_outcomes_def split: option.splits)
  have l: "lefts (map (\<lambda>obj. Inl (failed NegotiationError obj)) b) =
      map (failed NegotiationError) b"
    by (induction b) simp_all
  have r: "rights (map (\<lambda>obj. Inl (failed NegotiationError obj)) b) = []"
    by (induction b) simp_all
  from assms(1,2) B e show ?thesis
    by (auto simp add: outs l r)
qed


section \<open>A batch that fails\<close>

text \<open>
  C1, as amended. For a request with a non-empty object list that reaches the remote
  (the request was built and the transport returned a response), \<^verbatim>\<open>Batch\<close> returns a
  non-nil error if and only if the status of the response is not 200 or decoding the
  response fails. On a status other than 200 no decoded batch response is produced:
  the batch response returned is nil, the HTTP response is returned, and the decoder is
  not called. On status 200 the decoder is called once and what it filled is returned.
  When \<^verbatim>\<open>Batch\<close> returns an error for the request of the queue's next batch, every object
  of that batch is failed with a negotiation error, and nothing else changes: the
  Results and jobs of the batches before it, the jobs held by workers and the batches
  still to negotiate are as they were.
\<close>

theorem Batch_error_iff_not_200:
  assumes "len_slice (Objects bReq) \<noteq> 0"
    and "NewRequest c ''POST'' (Endpoint c (Operation bReq) remote) ''objects/batch''
           (batch_request_after (Batch c remote bReq [])) = Inr req"
    and "DoWithAuth c remote req = Inr res"
  shows "(batch_error (Batch c remote bReq []) \<noteq> None) =
           (StatusCode res \<noteq> 200
            \<or> snd (DecodeJSON c res \<lparr>TransferAdapterName = [], ResObjects = None\<rparr>) \<noteq> None)
       \<and> (StatusCode res \<noteq> 200 \<longrightarrow>
             batch_response (Batch c remote bReq []) = None
           \<and> batch_http (Batch c remote bReq []) = Some res
           \<and> filter is_decode_call (batch_events (Batch c remote bReq [])) = [])
       \<and> (StatusCode res = 200 \<longrightarrow>
             batch_response (Batch c remote bReq []) =
               Some (fst (DecodeJSON c res \<lparr>TransferAdapterName = [], ResObjects = None\<rparr>))
           \<and> batch_http (Batch c remote bReq []) = Some res
           \<and> filter is_decode_call (batch_events (Batch c remote bReq [])) = [EvDecodeJSON res])
       \<and> (\<forall>cfg (c' :: (ObjectResource, 'q) event list \<Rightarrow> (ObjectResource, 'q) tqClient) (q :: 'q queue) b bs.
             (phase q = Negotiating \<or> phase q = Running) \<and> pending q = b # bs
             \<and> batch_error (Batch (c' (calls q)) (q_remote cfg)
                   (batch_request (q_direction cfg) (q_adapters cfg) b) (calls q)) \<noteq> None
             \<longrightarrow> (\<exists>q'. qstep cfg c' NegotiateNext q = Some q'
                    \<and> results q' = results q @ map (failed NegotiationError) b
                    \<and> work q' = work q \<and> inflight q' = inflight q \<and> pending q' = bs))"
proof -
  have a: "(batch_error (Batch c remote bReq []) \<noteq> None) =
           (StatusCode res \<noteq> 200
            \<or> snd (DecodeJSON c res \<lparr>TransferAdapterName = [], ResObjects = None\<rparr>) \<noteq> None)
       \<and> (StatusCode res \<noteq> 200 \<longrightarrow>
             batch_response (Batch c remote bReq []) = None
           \<and> batch_http (Batch c remote bReq []) = Some res
           \<and> filter is_decode_call (batch_events (Batch c remote bReq [])) = [])
       \<and> (StatusCode res = 200 \<longrightarrow>
             batch_response (Batch c remote bReq []) =
               Some (fst (DecodeJSON c res \<lparr>TransferAdapterName = [], ResObjects = None\<rparr>))
           \<and> batch_http (Batch c remote bReq []) = Some res
           \<and> filter is_decode_call (batch_events (Batch c remote bReq [])) = [EvDecodeJSON res])"
    using assms(2,3)
    by (simp add: batch_response_def batch_http_def batch_error_def
        Batch_result_nonempty [OF assms(1)] Batch_events_nonempty [OF assms(1)])
  have b: "\<forall>cfg (c' :: (ObjectResource, 'q) event list \<Rightarrow> (ObjectResource, 'q) tqClient) (q :: 'q queue) b bs.
             (phase q = Negotiating \<or> phase q = Running) \<and> pending q = b # bs
             \<and> batch_error (Batch (c' (calls q)) (q_remote cfg)
                   (batch_request (q_direction cfg) (q_adapters cfg) b) (calls q)) \<noteq> None
             \<longrightarrow> (\<exists>q'. qstep cfg c' NegotiateNext q = Some q'
                    \<and> results q' = results q @ map (failed NegotiationError) b
                    \<and> work q' = work q \<and> inflight q' = inflight q \<and> pending q' = bs)"
    using NegotiateNext_failed_batch by blast
  from a b show ?thesis by blast
qed

theorem Batch_error_iff_not_200_witness:
  "len_slice (Objects (download_request (Some [Some ''oid1'']) None)) \<noteq> 0
   \<and> batch_error (Batch (reply_client 404 None) ''origin''
         (download_request (Some [Some ''oid1'']) None) []) \<noteq> None
   \<and> batch_response (Batch (reply_client 404 None) ''origin''
         (download_request (Some [Some ''oid1'']) None) []) = None
   \<and> batch_http (Batch (reply_client 404 None) ''origin''
         (download_request (Some [Some ''oid1'']) None) []) =
       Some \<lparr>StatusCode = 404, Body = []\<rparr>
   \<and> filter is_decode_call (batch_events (Batch (reply_client 404 None) ''origin''
         (download_request (Some [Some ''oid1'']) None) [])) = []
   \<and> phase demo_negotiating = Negotiating
   \<and> pending demo_negotiating = [[descriptor ''a'' 1, descriptor ''b'' 2], [descriptor ''c'' 3]]
   \<and> batch_http (Batch (granting_client 500) ''origin''
         (batch_request Download [''basic''] [descriptor ''a'' 1, descriptor ''b'' 2]) []) =
       Some \<lparr>StatusCode = 500, Body = []\<rparr>
   \<and> map_option results (qstep demo_config (steady (granting_client 500)) NegotiateNext demo_negotiating) =
       Some [failed NegotiationError (descriptor ''a'' 1),
             failed NegotiationError (descriptor ''b'' 2)]
   \<and> map_option pending (qstep demo_config (steady (granting_client 500)) NegotiateNext demo_negotiating) =
       Some [[descriptor ''c'' 3]]
   \<and> map_option work (qstep demo_config (steady (granting_client 500)) NegotiateNext demo_negotiating) =
       Some []"
proof -
  let ?r = "download_request (Some [Some ''oid1'']) None"
  have h: "len_slice (Objects ?r) \<noteq> 0"
    by (simp add: len_slice_def download_request_def)
  have n: "NewRequest (reply_client 404 None) ''POST''
              (Endpoint (reply_client 404 None) (Operation ?r) ''origin'') ''objects/batch''
              (batch_request_after (Batch (reply_client 404 None) ''origin'' ?r [])) =
            Inr \<lparr>Method = ''POST'', URL = ''origin/download/objects/batch''\<rparr>"
    by (simp add: reply_client_def download_request_def)
  have d: "DoWithAuth (reply_client 404 None) ''origin''
              \<lparr>Method = ''POST'', URL = ''origin/download/objects/batch''\<rparr> =
            Inr \<lparr>StatusCode = 404, Body = []\<rparr>"
    by (simp add: reply_client_def)
  note t = Batch_error_iff_not_200 [OF h n d, where ?'q = string]
  have q1: "phase demo_negotiating = Negotiating"
    and q2: "pending demo_negotiating =
      [descriptor ''a'' 1, descriptor ''b'' 2] # [[descriptor ''c'' 3]]"
    and q3: "results demo_negotiating = []" "work demo_negotiating = []"
      "calls demo_negotiating = []"
    by (simp_all add: demo_negotiating_def init_queue_def)
  have e: "batch_error (Batch (steady (granting_client 500) (calls demo_negotiating))
             (q_remote demo_config)
             (batch_request (q_direction demo_config) (q_adapters demo_config)
                [descriptor ''a'' 1, descriptor ''b'' 2]) (calls demo_negotiating)) \<noteq> None"
    and e2: "batch_http (Batch (granting_client 500) ''origin''
         (batch_request Download [''basic''] [descriptor ''a'' 1, descriptor ''b'' 2]) []) =
       Some \<lparr>StatusCode = 500, Body = []\<rparr>"
    by (simp_all add: q3 Batch_def Let_def len_slice_def slice_at_def granting_client_def
        steady_def
        batch_request_def demo_config_def batch_error_def batch_http_def)
  from t q1 q2 e
  have "\<exists>q'. qstep demo_config (steady (granting_client 500)) NegotiateNext demo_negotiating = Some q'
          \<and> results q' = results demo_negotiating
               @ map (failed NegotiationError) [descriptor ''a'' 1, descriptor ''b'' 2]
          \<and> work q' = work demo_negotiating \<and> inflight q' = inflight demo_negotiating
          \<and> pending q' = [[descriptor ''c'' 3]]"
    by blast
  then have s: "map_option results
        (qstep demo_config (steady (granting_client 500)) NegotiateNext demo_negotiating) =
       Some [failed NegotiationError (descriptor ''a'' 1),
             failed NegotiationError (descriptor ''b'' 2)]
   \<and> map_option pending (qstep demo_config (steady (granting_client 500)) NegotiateNext demo_negotiating) =
       Some [[descriptor ''c'' 3]]
   \<and> map_option work (qstep demo_config (steady (granting_client 500)) NegotiateNext demo_negotiating) =
       Some []"
    using q3 by (auto simp del: qstep.simps)
  from t h have "batch_error (Batch (reply_client 404 None) ''origin'' ?r []) \<noteq> None
   \<and> batch_response (Batch (reply_client 404 None) ''origin'' ?r []) = None
   \<and> batch_http (Batch (reply_client 404 None) ''origin'' ?r []) =
       Some \<lparr>StatusCode = 404, Body = []\<rparr>
   \<and> filter is_decode_call (batch_events (Batch (reply_client 404 None) ''origin'' ?r [])) = []"
    by simp
  with h q1 q2 e2 s show ?thesis by simp
qed

end
